theory Spec2Isabelle
  imports Main "HOL-Library.Word" "HOL-Library.Multiset" "HOL-Library.Sublist"
begin

section \<open>Data model\<close>

text \<open>
  The two TypeScript interfaces of \<^verbatim>\<open>src/lib/api.ts\<close>. A \<^verbatim>\<open>Certificate\<close> is built by
  spreading the six request fields (\<^verbatim>\<open>...data\<close>) between the generated ones, so the
  certificate record extends the request record. The field \<^verbatim>\<open>_id\<close> is written \<open>id_\<close>.
\<close>

record IssueCertificateRequest =
  recipientName :: string
  recipientEmail :: string
  courseName :: string
  issuerName :: string
  completionDate :: string
  description :: string

record Certificate = IssueCertificateRequest +
  id_ :: string
  certificateId :: string
  issuedAt :: string
  blockchainHash :: string
  isValid :: bool

text \<open>
  The errors the code can throw: \<^verbatim>\<open>JSON.parse\<close> on text that is not JSON, the two
  \<^verbatim>\<open>new Error(...)\<close> of the fallback, and a property read on \<^verbatim>\<open>undefined\<close>.
\<close>

datatype error = SyntaxError | CertificateNotFound | UnknownEndpoint | TypeError

section \<open>Numbers to text\<close>

text \<open>
  A value of \<^verbatim>\<open>Math.random()\<close> is a double in \<open>[0, 1)\<close>, that is a finite binary
  fraction \<open>0.b\<^sub>1b\<^sub>2\<dots>b\<^sub>n\<close>. It is represented by the list of its bits after the binary
  point, so every list is a value in range: \<open>[]\<close> is \<open>0\<close> and \<open>[True]\<close> is \<open>0.5\<close>.
\<close>

type_synonym float01 = "bool list"

definition numerator :: "float01 \<Rightarrow> nat" where
  "numerator bs = foldl (\<lambda>a b. 2 * a + (if b then 1 else 0)) 0 bs"

definition denominator :: "float01 \<Rightarrow> nat" where
  "denominator bs = 2 ^ length bs"

definition base36_digits :: string where
  "base36_digits = ''0123456789abcdefghijklmnopqrstuvwxyz''"

definition digit_char :: "nat \<Rightarrow> char" where
  "digit_char d = (if d < 36 then base36_digits ! d else CHR ''?'')"

text \<open>\<^verbatim>\<open>n.toString(radix)\<close> for a non-negative integer \<open>n\<close> and \<open>2 \<le> radix \<le> 36\<close>.\<close>

function toString_nat :: "nat \<Rightarrow> nat \<Rightarrow> string" where
  "toString_nat radix n =
     (if radix < 2 \<or> n < radix then [digit_char n]
      else toString_nat radix (n div radix) @ [digit_char (n mod radix)])"
  by pat_completeness auto
termination
  by (relation "measure snd") auto

declare toString_nat.simps [simp del]

text \<open>The decimal text of an integer, as a template literal or \<^verbatim>\<open>toString()\<close> prints it.\<close>

definition toString_int :: "int \<Rightarrow> string" where
  "toString_int i =
     (if i < 0 then CHR ''-'' # toString_nat 10 (nat (- i)) else toString_nat 10 (nat i))"

text \<open>
  \<^verbatim>\<open>r.toString(36)\<close> for \<open>r\<close> in \<open>[0, 1)\<close>: \<^verbatim>\<open>"0"\<close> for zero, otherwise \<^verbatim>\<open>"0."\<close> and
  the base-36 digits of the fraction, each obtained by multiplying the remainder by the
  radix and taking the integer part, until the remainder is zero. The expansion of a
  binary fraction of \<open>n\<close> bits ends within \<open>n\<close> digits, which bounds the loop. This is
  the exact expansion. An engine stops earlier, as soon as the digits identify the
  double, and may round the last one, so for some doubles it prints fewer digits than
  the expansion has (for the double nearest \<open>19/36\<close> it prints \<^verbatim>\<open>0.j\<close>). The two agree
  wherever the expansion is short, as at \<open>0\<close>, \<open>0.5\<close> and the 13-bit fraction of the
  examples, and in both every character after \<^verbatim>\<open>0.\<close> is a base-36 digit.
\<close>

fun frac_digits :: "nat \<Rightarrow> nat \<Rightarrow> nat \<Rightarrow> nat \<Rightarrow> nat list" where
  "frac_digits radix 0 m d = []"
| "frac_digits radix (Suc k) m d =
     (if m = 0 then []
      else (m * radix) div d # frac_digits radix k ((m * radix) mod d) d)"

definition toString36 :: "float01 \<Rightarrow> string" where
  "toString36 r =
     (if numerator r = 0 then ''0''
      else ''0.'' @ map digit_char (frac_digits 36 (length r) (numerator r) (denominator r)))"

text \<open>\<^verbatim>\<open>Math.floor(r * 16)\<close>: the multiplication by a power of two is exact.\<close>

definition floor_times16 :: "float01 \<Rightarrow> nat" where
  "floor_times16 r = (numerator r * 16) div denominator r"

section \<open>String operations\<close>

text \<open>
  \<^verbatim>\<open>substring(start, end)\<close> swaps its arguments when they are out of order and stops at the
  end of the string. \<^verbatim>\<open>toUpperCase\<close> is given on the letters \<^verbatim>\<open>a\<close> to \<^verbatim>\<open>z\<close>, the only
  letters in a base-36 text; every other character stays.
\<close>

definition substring :: "nat \<Rightarrow> nat \<Rightarrow> 'a list \<Rightarrow> 'a list" where
  "substring start end s =
     (if start \<le> end then take (end - start) (drop start s)
      else take (start - end) (drop end s))"

definition lower_letters :: string where
  "lower_letters = ''abcdefghijklmnopqrstuvwxyz''"

definition upper_letters :: string where
  "upper_letters = ''ABCDEFGHIJKLMNOPQRSTUVWXYZ''"

definition upper_char :: "char \<Rightarrow> char" where
  "upper_char c =
     (case map_of (zip lower_letters upper_letters) c of
        Some u \<Rightarrow> u
      | None \<Rightarrow> c)"

definition toUpperCase :: "string \<Rightarrow> string" where
  "toUpperCase s = map upper_char s"

definition startsWith :: "string \<Rightarrow> string \<Rightarrow> bool" where
  "startsWith s p = (take (length p) s = p)"

text \<open>\<^verbatim>\<open>s.split(sep)\<close> for a one-character separator, and \<^verbatim>\<open>pop()\<close> of the result.\<close>

fun split :: "char \<Rightarrow> string \<Rightarrow> string list" where
  "split sep [] = [[]]"
| "split sep (c # cs) =
     (if c = sep then [] # split sep cs
      else (case split sep cs of
              [] \<Rightarrow> [[c]]
            | w # ws \<Rightarrow> (c # w) # ws))"

definition pop :: "'a list \<Rightarrow> 'a option" where
  "pop xs = (if xs = [] then None else Some (last xs))"

section \<open>Identifier and hash generators\<close>

text \<open>
  \<^verbatim>\<open>generateCertificateId\<close> reads the clock's year and one random number;
  \<^verbatim>\<open>generateBlockchainHash\<close> draws 64 random numbers, given here as a function from the
  index of the draw.
\<close>

definition generateCertificateId :: "int \<Rightarrow> float01 \<Rightarrow> string" where
  "generateCertificateId year r =
     (let random = toUpperCase (substring 2 8 (toString36 r))
      in ''CERT-'' @ toString_int year @ ''-'' @ random)"

definition generateBlockchainHash :: "(nat \<Rightarrow> float01) \<Rightarrow> string" where
  "generateBlockchainHash rnd =
     ''0x'' @ concat (map (\<lambda>i. toString_nat 16 (floor_times16 (rnd i))) [0..<64])"

text \<open>
  \<^verbatim>\<open>generateDataHash\<close> works on \<^verbatim>\<open>JSON.stringify(certificateData)\<close>, a sequence of UTF-16
  code units, or \<^verbatim>\<open>undefined\<close> (\<open>None\<close>) when the payload has no JSON text; reading
  \<^verbatim>\<open>charCodeAt\<close> of \<^verbatim>\<open>undefined\<close> throws. On the empty string \<^verbatim>\<open>i % 0\<close> is NaN,
  \<^verbatim>\<open>charCodeAt(NaN)\<close> is NaN and each step appends the text \<^verbatim>\<open>NaN\<close>.
\<close>

definition hashChar :: "16 word list \<Rightarrow> nat \<Rightarrow> string" where
  "hashChar dataString i =
     (if dataString = [] then ''NaN''
      else toString_nat 16 ((unat (dataString ! (i mod length dataString)) + i) mod 16))"

fun dataHash_loop :: "16 word list \<Rightarrow> nat \<Rightarrow> nat \<Rightarrow> string \<Rightarrow> string" where
  "dataHash_loop dataString 0 i hash = hash"
| "dataHash_loop dataString (Suc k) i hash =
     dataHash_loop dataString k (Suc i) (hash @ hashChar dataString i)"

definition generateDataHash :: "16 word list option \<Rightarrow> error + string" where
  "generateDataHash stringified =
     (case stringified of
        None \<Rightarrow> Inl TypeError
      | Some dataString \<Rightarrow> Inr (dataHash_loop dataString 64 0 ''0x''))"

section \<open>The storage entry\<close>

text \<open>
  One \<^verbatim>\<open>localStorage\<close> entry under the key \<^verbatim>\<open>certchain_certificates\<close>. \<^verbatim>\<open>getItem\<close>
  gives \<^verbatim>\<open>null\<close> (\<open>None\<close>) or a string. A stored string is represented by what the code
  can observe of it: whether it is empty (falsy), and what \<^verbatim>\<open>JSON.parse\<close> makes of it,
  a \<^verbatim>\<open>SyntaxError\<close> or the \<^verbatim>\<open>Certificate[]\<close> the code reads it as. \<^verbatim>\<open>JSON.stringify\<close> of
  a certificate list is the text that parses back to it: the fields are strings and a
  boolean, which JSON carries unchanged. Texts that parse to anything else than a list of
  certificate records are outside this model, as they are outside the type the code
  gives to the parsed value.
\<close>

datatype stored_text = EmptyText | Malformed | Serialized "Certificate list"

type_synonym localStorage = "stored_text option"

definition truthy :: "stored_text \<Rightarrow> bool" where
  "truthy t = (t \<noteq> EmptyText)"

definition JSON_parse :: "stored_text \<Rightarrow> error + Certificate list" where
  "JSON_parse t =
     (case t of
        EmptyText \<Rightarrow> Inl SyntaxError
      | Malformed \<Rightarrow> Inl SyntaxError
      | Serialized cs \<Rightarrow> Inr cs)"

definition JSON_stringify :: "Certificate list \<Rightarrow> stored_text" where
  "JSON_stringify cs = Serialized cs"

section \<open>What an operation reads from outside\<close>

text \<open>
  One issuance reads the clock three times (\<^verbatim>\<open>getFullYear()\<close>, \<^verbatim>\<open>Date.now()\<close>,
  \<^verbatim>\<open>toISOString()\<close>) and draws 65 random numbers: draw \<open>0\<close> for the identifier, draws
  \<open>1\<close> to \<open>64\<close> for the hash.
\<close>

record environment =
  now_year :: int
  now_ms :: int
  now_iso :: string
  random :: "nat \<Rightarrow> float01"

record RequestInit =
  http_method :: "string option"
  body :: "IssueCertificateRequest option"

text \<open>
  The field \<^verbatim>\<open>method\<close> of the request options is written \<open>http_method\<close>.
  The request body is \<^verbatim>\<open>JSON.stringify(data)\<close> and is read back with \<^verbatim>\<open>JSON.parse\<close>; it is
  represented by the request it serialises, and \<^verbatim>\<open>JSON.parse(undefined)\<close> throws.
\<close>

definition parse_body :: "IssueCertificateRequest option \<Rightarrow> error + IssueCertificateRequest" where
  "parse_body b = (case b of None \<Rightarrow> Inl SyntaxError | Some data \<Rightarrow> Inr data)"

datatype response =
    IssueResponse string
  | CertificateResponse Certificate
  | ListResponse "Certificate list"
  | HealthResponse string string

definition newCertificate :: "environment \<Rightarrow> string \<Rightarrow> IssueCertificateRequest \<Rightarrow> Certificate" where
  "newCertificate env cid data =
     \<lparr> recipientName = recipientName data,
       recipientEmail = recipientEmail data,
       courseName = courseName data,
       issuerName = issuerName data,
       completionDate = completionDate data,
       description = description data,
       id_ = toString_int (now_ms env),
       certificateId = cid,
       issuedAt = now_iso env,
       blockchainHash = generateBlockchainHash (\<lambda>i. random env (Suc i)),
       isValid = True \<rparr>"

section \<open>Sorting by issue time\<close>

text \<open>
  The comparator of \<^verbatim>\<open>getAll\<close> is \<^verbatim>\<open>new Date(b.issuedAt).getTime() - new Date(a.issuedAt).getTime()\<close>.
  The date parser of the runtime is a parameter \<open>getTime\<close>, with \<open>None\<close> for NaN (an
  invalid date); a difference with NaN is NaN. Time values are integers of at most
  \<open>8.64e15\<close> in absolute value, so the subtraction is exact.
\<close>

definition compare_issuedAt ::
  "(string \<Rightarrow> int option) \<Rightarrow> Certificate \<Rightarrow> Certificate \<Rightarrow> int option" where
  "compare_issuedAt getTime a b =
     (case getTime (issuedAt b) of
        None \<Rightarrow> None
      | Some tb \<Rightarrow> (case getTime (issuedAt a) of None \<Rightarrow> None | Some ta \<Rightarrow> Some (tb - ta)))"

text \<open>
  \<^verbatim>\<open>Array.prototype.sort(comparefn)\<close>: the language fixes that a NaN from the comparator
  counts as \<open>+0\<close> and that the sort is stable; with a comparator that is not a consistent
  order the result is left to the engine. The model is the stable insertion sort: an
  element moves in front of the sorted rest as long as the comparator does not put it
  after the next one. On a list whose \<^verbatim>\<open>issuedAt\<close> are all dates the comparator is a
  consistent order, every stable sort gives the same list, and the model is the
  engine's result; where a comparison is NaN an engine may order the list otherwise,
  and nothing below is stated about such lists beyond the model's own rearrangement.
\<close>

definition SortCompare :: "('a \<Rightarrow> 'a \<Rightarrow> int option) \<Rightarrow> 'a \<Rightarrow> 'a \<Rightarrow> int" where
  "SortCompare comparefn x y = (case comparefn x y of None \<Rightarrow> 0 | Some v \<Rightarrow> v)"

fun sort_insert :: "('a \<Rightarrow> 'a \<Rightarrow> int option) \<Rightarrow> 'a \<Rightarrow> 'a list \<Rightarrow> 'a list" where
  "sort_insert comparefn x [] = [x]"
| "sort_insert comparefn x (y # ys) =
     (if SortCompare comparefn x y \<le> 0 then x # y # ys
      else y # sort_insert comparefn x ys)"

fun array_sort :: "('a \<Rightarrow> 'a \<Rightarrow> int option) \<Rightarrow> 'a list \<Rightarrow> 'a list" where
  "array_sort comparefn [] = []"
| "array_sort comparefn (x # xs) = sort_insert comparefn x (array_sort comparefn xs)"

section \<open>The class \<^verbatim>\<open>CertificateAPI\<close> of \<^verbatim>\<open>src/lib/api.ts\<close>\<close>

text \<open>
  \<^verbatim>\<open>JSON.parse(localStorage.getItem(STORAGE_KEY) || '[]')\<close>: \<^verbatim>\<open>null\<close> and the empty string
  are falsy and replaced by \<^verbatim>\<open>'[]'\<close>.
\<close>

definition getItem_or_empty :: "localStorage \<Rightarrow> stored_text" where
  "getItem_or_empty st =
     (case st of
        None \<Rightarrow> Serialized []
      | Some t \<Rightarrow> if truthy t then t else Serialized [])"

text \<open>
  Every operation returns its result, or the error it throws, with the storage entry it
  leaves behind.
\<close>

definition fallbackToLocalStorage ::
  "(string \<Rightarrow> int option) \<Rightarrow> environment \<Rightarrow> localStorage \<Rightarrow> string \<Rightarrow> RequestInit
     \<Rightarrow> (error + response) \<times> localStorage" where
  "fallbackToLocalStorage getTime env st endpoint options =
     (case JSON_parse (getItem_or_empty st) of
        Inl e \<Rightarrow> (Inl e, st)
      | Inr certificates \<Rightarrow>
          if endpoint = ''/certificates'' \<and> http_method options = Some ''POST'' then
            (case parse_body (body options) of
               Inl e \<Rightarrow> (Inl e, st)
             | Inr data \<Rightarrow>
                 let cid = generateCertificateId (now_year env) (random env 0);
                     certificates' = certificates @ [newCertificate env cid data]
                 in (Inr (IssueResponse cid), Some (JSON_stringify certificates')))
          else if startsWith endpoint ''/certificates/verify/'' then
            (let cid = pop (split (CHR ''/'') endpoint)
             in case find (\<lambda>cert. Some (certificateId cert) = cid) certificates of
                  None \<Rightarrow> (Inl CertificateNotFound, st)
                | Some certificate \<Rightarrow> (Inr (CertificateResponse certificate), st))
          else if endpoint = ''/certificates'' then
            (Inr (ListResponse (array_sort (compare_issuedAt getTime) certificates)), st)
          else (Inl UnknownEndpoint, st))"

text \<open>
  \<^verbatim>\<open>makeRequest\<close>: \<open>remote\<close> is the outcome of the \<^verbatim>\<open>fetch\<close>, \<open>Some\<close> payload when the
  response is ok and its body parses, \<open>None\<close> when anything in the \<^verbatim>\<open>try\<close> block throws
  and the \<^verbatim>\<open>catch\<close> hands over to the fallback.
\<close>

definition makeRequest ::
  "(string \<Rightarrow> int option) \<Rightarrow> environment \<Rightarrow> response option \<Rightarrow> localStorage \<Rightarrow> string
     \<Rightarrow> RequestInit \<Rightarrow> (error + response) \<times> localStorage" where
  "makeRequest getTime env remote st endpoint options =
     (case remote of
        Some payload \<Rightarrow> (Inr payload, st)
      | None \<Rightarrow> fallbackToLocalStorage getTime env st endpoint options)"

definition issue ::
  "(string \<Rightarrow> int option) \<Rightarrow> environment \<Rightarrow> response option \<Rightarrow> localStorage
     \<Rightarrow> IssueCertificateRequest \<Rightarrow> (error + response) \<times> localStorage" where
  "issue getTime env remote st data =
     makeRequest getTime env remote st ''/certificates''
       \<lparr>http_method = Some ''POST'', body = Some data\<rparr>"

definition verify ::
  "(string \<Rightarrow> int option) \<Rightarrow> environment \<Rightarrow> response option \<Rightarrow> localStorage
     \<Rightarrow> string \<Rightarrow> (error + response) \<times> localStorage" where
  "verify getTime env remote st cid =
     makeRequest getTime env remote st (''/certificates/verify/'' @ cid)
       \<lparr>http_method = None, body = None\<rparr>"

definition getAll ::
  "(string \<Rightarrow> int option) \<Rightarrow> environment \<Rightarrow> response option \<Rightarrow> localStorage
     \<Rightarrow> (error + response) \<times> localStorage" where
  "getAll getTime env remote st =
     makeRequest getTime env remote st ''/certificates'' \<lparr>http_method = None, body = None\<rparr>"

definition healthCheck ::
  "(string \<Rightarrow> int option) \<Rightarrow> environment \<Rightarrow> response option \<Rightarrow> localStorage
     \<Rightarrow> response \<times> localStorage" where
  "healthCheck getTime env remote st =
     (case makeRequest getTime env remote st ''/health'' \<lparr>http_method = None, body = None\<rparr> of
        (Inr r, st') \<Rightarrow> (r, st')
      | (Inl e, st') \<Rightarrow> (HealthResponse ''localStorage_fallback'' (now_iso env), st'))"

text \<open>
  The two sample records; their hashes are drawn when the samples are built, draws \<open>0\<close>
  to \<open>63\<close> for the first and \<open>64\<close> to \<open>127\<close> for the second.
\<close>

definition sampleCertificates :: "(nat \<Rightarrow> float01) \<Rightarrow> Certificate list" where
  "sampleCertificates rnd =
     [\<lparr> recipientName = ''John Doe'',
        recipientEmail = ''john.doe@example.com'',
        courseName = ''Full Stack Web Development'',
        issuerName = ''Tech Academy'',
        completionDate = ''2024-01-15'',
        description = ''Completed comprehensive full stack development course covering React, Node.js, MongoDB, and Express.js'',
        id_ = ''1'',
        certificateId = ''CERT-2024-SAMPLE1'',
        issuedAt = ''2024-01-16T10:00:00.000Z'',
        blockchainHash = generateBlockchainHash rnd,
        isValid = True \<rparr>,
      \<lparr> recipientName = ''Jane Smith'',
        recipientEmail = ''jane.smith@example.com'',
        courseName = ''Blockchain Development Fundamentals'',
        issuerName = ''Crypto Institute'',
        completionDate = ''2024-02-28'',
        description = ''Mastered blockchain development using Ethereum, Solidity, and smart contract deployment'',
        id_ = ''2'',
        certificateId = ''CERT-2024-SAMPLE2'',
        issuedAt = ''2024-03-01T14:30:00.000Z'',
        blockchainHash = generateBlockchainHash (\<lambda>i. rnd (64 + i)),
        isValid = True \<rparr>]"

text \<open>\<^verbatim>\<open>if (!stored)\<close>: the entry is absent or the empty string.\<close>

definition initializeSampleData :: "(nat \<Rightarrow> float01) \<Rightarrow> localStorage \<Rightarrow> localStorage" where
  "initializeSampleData rnd st =
     (if (case st of None \<Rightarrow> True | Some stored \<Rightarrow> \<not> truthy stored)
      then Some (JSON_stringify (sampleCertificates rnd))
      else st)"

section \<open>The module \<^verbatim>\<open>certificateAPI\<close> that works on \<^verbatim>\<open>localStorage\<close> alone\<close>

text \<open>
  The second source file exports an object of the same name with no remote call. Its
  functions carry the prefix \<open>local_\<close> here.
\<close>

definition getCertificatesFromStorage :: "localStorage \<Rightarrow> error + Certificate list" where
  "getCertificatesFromStorage st =
     (case st of
        None \<Rightarrow> Inr []
      | Some stored \<Rightarrow> if truthy stored then JSON_parse stored else Inr [])"

definition saveCertificatesToStorage :: "Certificate list \<Rightarrow> localStorage" where
  "saveCertificatesToStorage certificates = Some (JSON_stringify certificates)"

definition local_issue ::
  "environment \<Rightarrow> localStorage \<Rightarrow> IssueCertificateRequest \<Rightarrow> (error + string) \<times> localStorage" where
  "local_issue env st data =
     (case getCertificatesFromStorage st of
        Inl e \<Rightarrow> (Inl e, st)
      | Inr certificates \<Rightarrow>
          let cid = generateCertificateId (now_year env) (random env 0);
              certificates' = certificates @ [newCertificate env cid data]
          in (Inr cid, saveCertificatesToStorage certificates'))"

definition local_verify :: "localStorage \<Rightarrow> string \<Rightarrow> (error + Certificate) \<times> localStorage" where
  "local_verify st cid =
     (case getCertificatesFromStorage st of
        Inl e \<Rightarrow> (Inl e, st)
      | Inr certificates \<Rightarrow>
          (case find (\<lambda>cert. certificateId cert = cid) certificates of
             None \<Rightarrow> (Inl CertificateNotFound, st)
           | Some certificate \<Rightarrow> (Inr certificate, st)))"

definition local_getAll ::
  "(string \<Rightarrow> int option) \<Rightarrow> localStorage \<Rightarrow> (error + Certificate list) \<times> localStorage" where
  "local_getAll getTime st =
     (case getCertificatesFromStorage st of
        Inl e \<Rightarrow> (Inl e, st)
      | Inr certificates \<Rightarrow> (Inr (array_sort (compare_issuedAt getTime) certificates), st))"

definition local_initializeSampleData ::
  "(nat \<Rightarrow> float01) \<Rightarrow> localStorage \<Rightarrow> (error + unit) \<times> localStorage" where
  "local_initializeSampleData rnd st =
     (case getCertificatesFromStorage st of
        Inl e \<Rightarrow> (Inl e, st)
      | Inr certificates \<Rightarrow>
          if length certificates = 0
          then (Inr (), saveCertificatesToStorage (sampleCertificates rnd))
          else (Inr (), st))"

section \<open>The submit handler of the issuance form\<close>

text \<open>
  \<^verbatim>\<open>handleSubmit\<close> of the issuance page: when a required field is empty (\<^verbatim>\<open>!formData.x\<close>)
  it shows a toast and returns; otherwise it hands the form data to
  \<^verbatim>\<open>issueMutation.mutate\<close>, a parameter here.
\<close>

datatype 'r submit_outcome = MissingInformation | Mutated 'r

definition handleSubmit ::
  "(IssueCertificateRequest \<Rightarrow> localStorage \<Rightarrow> 'r \<times> localStorage) \<Rightarrow> localStorage
     \<Rightarrow> IssueCertificateRequest \<Rightarrow> 'r submit_outcome \<times> localStorage" where
  "handleSubmit mutate st formData =
     (if recipientName formData = [] \<or> courseName formData = [] \<or> issuerName formData = []
      then (MissingInformation, st)
      else (case mutate formData st of (r, st') \<Rightarrow> (Mutated r, st')))"

section \<open>Runs of operations\<close>

text \<open>
  The records a storage entry holds: the list both implementations load from it, and no
  record when the load throws.
\<close>

definition stored_records :: "localStorage \<Rightarrow> Certificate list" where
  "stored_records st =
     (case getCertificatesFromStorage st of Inl e \<Rightarrow> [] | Inr certificates \<Rightarrow> certificates)"

text \<open>
  Every entry point of the two implementations that can touch the storage entry, with
  what it reads from outside, and the entry each leaves behind.
\<close>

datatype operation =
    Issue environment "response option" IssueCertificateRequest
  | Verify environment "response option" string
  | GetAll environment "response option"
  | HealthCheck environment "response option"
  | InitializeSampleData "nat \<Rightarrow> float01"
  | LocalIssue environment IssueCertificateRequest
  | LocalVerify string
  | LocalGetAll
  | LocalInitializeSampleData "nat \<Rightarrow> float01"

fun perform :: "(string \<Rightarrow> int option) \<Rightarrow> operation \<Rightarrow> localStorage \<Rightarrow> localStorage" where
  "perform getTime (Issue env remote data) st = snd (issue getTime env remote st data)"
| "perform getTime (Verify env remote cid) st = snd (verify getTime env remote st cid)"
| "perform getTime (GetAll env remote) st = snd (getAll getTime env remote st)"
| "perform getTime (HealthCheck env remote) st = snd (healthCheck getTime env remote st)"
| "perform getTime (InitializeSampleData rnd) st = initializeSampleData rnd st"
| "perform getTime (LocalIssue env data) st = snd (local_issue env st data)"
| "perform getTime (LocalVerify cid) st = snd (local_verify st cid)"
| "perform getTime LocalGetAll st = snd (local_getAll getTime st)"
| "perform getTime (LocalInitializeSampleData rnd) st = snd (local_initializeSampleData rnd st)"

section \<open>Orderings of a listing\<close>

text \<open>
  Newest first: no record is followed, anywhere later in the list, by one with a larger
  issue time. Records whose \<^verbatim>\<open>issuedAt\<close> is not a date have no issue time and are not
  compared.
\<close>

definition newer_or_equal :: "(string \<Rightarrow> int option) \<Rightarrow> Certificate \<Rightarrow> Certificate \<Rightarrow> bool" where
  "newer_or_equal getTime a b =
     (case getTime (issuedAt a) of
        None \<Rightarrow> True
      | Some ta \<Rightarrow> (case getTime (issuedAt b) of None \<Rightarrow> True | Some tb \<Rightarrow> tb \<le> ta))"

definition newest_first :: "(string \<Rightarrow> int option) \<Rightarrow> Certificate list \<Rightarrow> bool" where
  "newest_first getTime xs = sorted_wrt (newer_or_equal getTime) xs"

definition listing :: "error + response \<Rightarrow> Certificate list" where
  "listing r = (case r of Inr (ListResponse xs) \<Rightarrow> xs | _ \<Rightarrow> [])"

text \<open>The issue time of a record whose \<^verbatim>\<open>issuedAt\<close> is a date.\<close>

definition issue_time :: "(string \<Rightarrow> int option) \<Rightarrow> Certificate \<Rightarrow> int" where
  "issue_time getTime c = (case getTime (issuedAt c) of None \<Rightarrow> 0 | Some t \<Rightarrow> t)"

section \<open>Concrete inputs for the examples\<close>

text \<open>
  The date parser at the texts the examples use: the two sample issue times, in
  milliseconds since the epoch, and NaN for the empty text.
\<close>

definition example_getTime :: "string \<Rightarrow> int option" where
  "example_getTime s =
     (if s = ''2024-01-16T10:00:00.000Z'' then Some 1705399200000
      else if s = ''2024-03-01T14:30:00.000Z'' then Some 1709303400000
      else None)"

text \<open>
  A random source whose every draw is the 13-bit fraction \<open>0.1011011011011\<close>, one whose
  every draw is \<open>0.5\<close>, and a clock reading of 1 March 2024, 14:30 UTC.
\<close>

definition example_random :: "nat \<Rightarrow> float01" where
  "example_random i =
     [True, False, True, True, False, True, True, False, True, True, False, True, True]"

definition half_random :: "nat \<Rightarrow> float01" where
  "half_random i = [True]"

definition example_env :: environment where
  "example_env =
     \<lparr> now_year = 2024, now_ms = 1709303400000,
       now_iso = ''2024-03-01T14:30:00.000Z'', random = example_random \<rparr>"

definition example_request :: IssueCertificateRequest where
  "example_request =
     \<lparr> recipientName = ''A'', recipientEmail = '''', courseName = ''B'',
       issuerName = ''C'', completionDate = '''', description = '''' \<rparr>"

text \<open>A store with the samples stored twice, so that records share an issue time.\<close>

definition duplicated_samples :: localStorage where
  "duplicated_samples =
     Some (Serialized (sampleCertificates half_random @ sampleCertificates half_random))"

section \<open>Facts about the text operations\<close>

lemma digit_char_in: "d < 36 \<Longrightarrow> digit_char d \<in> set base36_digits"
  unfolding digit_char_def by (simp add: base36_digits_def del: set_simps)

lemma digit_char_cases: "digit_char d \<in> set base36_digits \<or> digit_char d = CHR ''?''"
  using digit_char_in [of d] by (cases "d < 36") (simp_all add: digit_char_def)

lemma slash_not_digit: "CHR ''/'' \<noteq> digit_char d"
proof -
  have "CHR ''/'' \<notin> set base36_digits" by (simp add: base36_digits_def)
  with digit_char_cases [of d] show ?thesis by auto
qed

lemma set_toString_nat: "set (toString_nat radix n) \<subseteq> range digit_char"
proof (induction radix n rule: toString_nat.induct)
  case (1 radix n)
  show ?case
  proof (cases "radix < 2 \<or> n < radix")
    case True
    then show ?thesis by (subst toString_nat.simps) auto
  next
    case False
    with 1 show ?thesis by (subst toString_nat.simps) auto
  qed
qed

lemma slash_not_in_toString_nat: "CHR ''/'' \<notin> set (toString_nat radix n)"
proof
  assume "CHR ''/'' \<in> set (toString_nat radix n)"
  with set_toString_nat [of radix n] have "CHR ''/'' \<in> range digit_char" by blast
  then show False by (auto simp: slash_not_digit)
qed

lemma slash_not_in_toString_int: "CHR ''/'' \<notin> set (toString_int i)"
  by (simp add: toString_int_def slash_not_in_toString_nat)

lemma slash_not_in_toString36: "CHR ''/'' \<notin> set (toString36 r)"
  by (auto simp: toString36_def slash_not_digit)

lemma set_substring: "set (substring a b s) \<subseteq> set s"
  by (auto simp: substring_def dest: in_set_takeD in_set_dropD)

lemma upper_char_slash: "upper_char c = CHR ''/'' \<Longrightarrow> c = CHR ''/''"
proof (cases "map_of (zip lower_letters upper_letters) c")
  case None
  assume "upper_char c = CHR ''/''"
  with None show ?thesis by (simp add: upper_char_def)
next
  case (Some u)
  assume a: "upper_char c = CHR ''/''"
  from Some have "(c, u) \<in> set (zip lower_letters upper_letters)" by (rule map_of_SomeD)
  then have "u \<in> set upper_letters" by (rule set_zip_rightD)
  moreover have "CHR ''/'' \<notin> set upper_letters" by (simp add: upper_letters_def)
  ultimately have "u \<noteq> CHR ''/''" by auto
  with a Some show ?thesis by (simp add: upper_char_def)
qed

lemma slash_not_in_toUpperCase: "CHR ''/'' \<notin> set s \<Longrightarrow> CHR ''/'' \<notin> set (toUpperCase s)"
  by (auto simp: toUpperCase_def dest: upper_char_slash [OF sym])

text \<open>A generated identifier never contains the path separator.\<close>

lemma slash_not_in_generateCertificateId:
  "CHR ''/'' \<notin> set (generateCertificateId year r)"
proof -
  have "CHR ''/'' \<notin> set (substring 2 8 (toString36 r))"
    using set_substring [of 2 8 "toString36 r"] slash_not_in_toString36 [of r] by blast
  then have "CHR ''/'' \<notin> set (toUpperCase (substring 2 8 (toString36 r)))"
    by (rule slash_not_in_toUpperCase)
  then show ?thesis
    by (simp add: generateCertificateId_def Let_def slash_not_in_toString_int)
qed

lemma split_no_sep: "sep \<notin> set s \<Longrightarrow> split sep s = [s]"
  by (induction s) auto

text \<open>Whatever precedes the last separator, the last piece is the text after it.\<close>

lemma split_append_sep:
  "sep \<notin> set s \<Longrightarrow> \<exists>ws. split sep (p @ sep # s) = ws @ [s] \<and> ws \<noteq> []"
proof (induction p)
  case Nil
  then have "split sep ([] @ sep # s) = [[]] @ [s]" by (simp add: split_no_sep)
  then show ?case by blast
next
  case (Cons c p)
  then obtain ws where ws: "split sep (p @ sep # s) = ws @ [s]" "ws \<noteq> []" by blast
  then obtain w ws' where w: "ws = w # ws'" by (cases ws) auto
  show ?case
  proof (cases "c = sep")
    case True
    with ws have "split sep ((c # p) @ sep # s) = ([] # ws) @ [s]" by simp
    then show ?thesis by blast
  next
    case False
    with ws w have "split sep ((c # p) @ sep # s) = ((c # w) # ws') @ [s]" by simp
    then show ?thesis by blast
  qed
qed

lemma pop_split: "sep \<notin> set s \<Longrightarrow> pop (split sep (p @ sep # s)) = Some s"
  using split_append_sep [of sep s p] by (auto simp: pop_def)

lemma verify_endpoint_id:
  "CHR ''/'' \<notin> set cid \<Longrightarrow> pop (split (CHR ''/'') (''/certificates/verify/'' @ cid)) = Some cid"
  using pop_split [of "CHR ''/''" cid "''/certificates/verify''"] by simp

lemma startsWith_append: "startsWith (p @ s) p"
  by (simp add: startsWith_def)

lemma find_append_last:
  "P x \<Longrightarrow> \<exists>y. find P (xs @ [x]) = Some y \<and> P y \<and> y \<in> set (xs @ [x])"
  by (induction xs) auto

lemma find_Some_holds: "find P xs = Some x \<Longrightarrow> P x \<and> x \<in> set xs"
  by (induction xs) (auto split: if_splits)

section \<open>The branches of the fallback\<close>

lemma fallback_verify:
  "fallbackToLocalStorage getTime env st (''/certificates/verify/'' @ cid) \<lparr>http_method = None, body = None\<rparr> =
     (case JSON_parse (getItem_or_empty st) of
        Inl e \<Rightarrow> (Inl e, st)
      | Inr certificates \<Rightarrow>
          (case find (\<lambda>cert. Some (certificateId cert) = pop (split (CHR ''/'') (''/certificates/verify/'' @ cid))) certificates of
             None \<Rightarrow> (Inl CertificateNotFound, st)
           | Some certificate \<Rightarrow> (Inr (CertificateResponse certificate), st)))"
  unfolding fallbackToLocalStorage_def using startsWith_append [of "''/certificates/verify/''" cid]
  by (simp split: sum.splits add: Let_def)

lemma fallback_issue:
  "fallbackToLocalStorage getTime env st ''/certificates'' \<lparr>http_method = Some ''POST'', body = Some data\<rparr> =
     (case JSON_parse (getItem_or_empty st) of
        Inl e \<Rightarrow> (Inl e, st)
      | Inr certificates \<Rightarrow>
          (Inr (IssueResponse (generateCertificateId (now_year env) (random env 0))),
           Some (Serialized (certificates @
              [newCertificate env (generateCertificateId (now_year env) (random env 0)) data]))))"
  unfolding fallbackToLocalStorage_def
  by (simp split: sum.splits add: Let_def parse_body_def JSON_stringify_def)

lemma load_eq: "JSON_parse (getItem_or_empty st) = getCertificatesFromStorage st"
  by (simp add: getCertificatesFromStorage_def getItem_or_empty_def JSON_parse_def truthy_def
      split: option.splits stored_text.splits)

lemma load_Serialized [simp]: "getCertificatesFromStorage (Some (Serialized cs)) = Inr cs"
  by (simp add: JSON_parse_def getCertificatesFromStorage_def truthy_def)

lemma load_None [simp]: "getCertificatesFromStorage None = Inr []"
  by (simp add: getCertificatesFromStorage_def)

lemma stored_records_Serialized [simp]: "stored_records (Some (Serialized cs)) = cs"
  by (simp add: stored_records_def)

lemma certificateId_newCertificate [simp]: "certificateId (newCertificate env cid data) = cid"
  by (simp add: newCertificate_def)

lemma isValid_newCertificate [simp]: "isValid (newCertificate env cid data)"
  by (simp add: newCertificate_def)

lemma toString36_example: "toString36 (example_random 0) = ''0.ppn9udi''"
  by (simp add: toString36_def numerator_def denominator_def example_random_def
      digit_char_def base36_digits_def)

lemma toString36_half: "toString36 [True] = ''0.i'' \<and> toString36 [] = ''0''"
  by (simp add: toString36_def numerator_def denominator_def digit_char_def base36_digits_def)

lemma toString_int_2024: "toString_int 2024 = ''2024''"
  by (simp add: toString_int_def toString_nat.simps digit_char_def base36_digits_def)

lemma toUpperCase_example: "toUpperCase ''ppn9ud'' = ''PPN9UD''"
  by (simp add: toUpperCase_def upper_char_def lower_letters_def upper_letters_def)

lemma example_cid:
  "generateCertificateId (now_year example_env) (random example_env 0) = ''CERT-2024-PPN9UD''"
  by (simp add: generateCertificateId_def example_env_def toString36_example toString_int_2024
      substring_def toUpperCase_example)

lemma sample_ids:
  "map certificateId (sampleCertificates rnd) = [''CERT-2024-SAMPLE1'', ''CERT-2024-SAMPLE2'']"
  by (simp add: sampleCertificates_def)

lemma sampleCertificates_not_Nil: "sampleCertificates rnd \<noteq> []"
  by (simp add: sampleCertificates_def)

section \<open>Issue, then verify\<close>

text \<open>
  Claim C1. On the local-fallback path, when \<^verbatim>\<open>issue\<close> returned \<^verbatim>\<open>{ certificateId: id }\<close>,
  a \<^verbatim>\<open>verify(id)\<close> on the storage entry it left behind returns a stored record whose
  \<^verbatim>\<open>certificateId\<close> is \<open>id\<close>, whatever the entry and the input were before. This holds for
  the class, whose lookup key is the last path segment of the endpoint (a generated
  identifier has no \<^verbatim>\<open>/\<close>), and for the module that works on \<^verbatim>\<open>localStorage\<close> alone.
\<close>

theorem issue_then_verify:
  "(issue getTime env None st data = (Inr (IssueResponse cid), st') \<longrightarrow>
      (\<exists>c. verify getTime env' None st' cid = (Inr (CertificateResponse c), st')
            \<and> certificateId c = cid \<and> c \<in> set (stored_records st')))
   \<and> (local_issue env st data = (Inr cid2, st2) \<longrightarrow>
      (\<exists>c. local_verify st2 cid2 = (Inr c, st2)
            \<and> certificateId c = cid2 \<and> c \<in> set (stored_records st2)))"
proof (intro conjI impI)
  assume a: "issue getTime env None st data = (Inr (IssueResponse cid), st')"
  then obtain cs where
    cid: "cid = generateCertificateId (now_year env) (random env 0)" and
    st': "st' = Some (Serialized (cs @ [newCertificate env cid data]))"
    by (auto simp: issue_def makeRequest_def fallback_issue split: sum.splits)
  have noslash: "CHR ''/'' \<notin> set cid"
    unfolding cid by (rule slash_not_in_generateCertificateId)
  obtain c where
    c: "find (\<lambda>cert. certificateId cert = cid) (cs @ [newCertificate env cid data]) = Some c"
       "certificateId c = cid" "c \<in> set (cs @ [newCertificate env cid data])"
    using find_append_last [of "\<lambda>cert. certificateId cert = cid" "newCertificate env cid data" cs]
    by auto
  have "verify getTime env' None st' cid = (Inr (CertificateResponse c), st')"
    unfolding verify_def makeRequest_def st'
    by (simp add: fallback_verify load_eq verify_endpoint_id [OF noslash] c del: append.simps)
  with c show "\<exists>c. verify getTime env' None st' cid = (Inr (CertificateResponse c), st')
            \<and> certificateId c = cid \<and> c \<in> set (stored_records st')"
    unfolding st' by (intro exI [of _ c]) simp
next
  assume a: "local_issue env st data = (Inr cid2, st2)"
  then obtain cs where
    st2: "st2 = Some (Serialized (cs @ [newCertificate env cid2 data]))"
    by (auto simp: local_issue_def Let_def saveCertificatesToStorage_def JSON_stringify_def
        split: sum.splits)
  obtain c where
    c: "find (\<lambda>cert. certificateId cert = cid2) (cs @ [newCertificate env cid2 data]) = Some c"
       "certificateId c = cid2" "c \<in> set (cs @ [newCertificate env cid2 data])"
    using find_append_last [of "\<lambda>cert. certificateId cert = cid2" "newCertificate env cid2 data" cs]
    by auto
  have "local_verify st2 cid2 = (Inr c, st2)"
    unfolding local_verify_def st2 by (simp add: c del: append.simps)
  with c show "\<exists>c. local_verify st2 cid2 = (Inr c, st2)
            \<and> certificateId c = cid2 \<and> c \<in> set (stored_records st2)"
    unfolding st2 by (intro exI [of _ c]) simp
qed

lemma example_issue:
  "issue example_getTime example_env None None example_request =
     (Inr (IssueResponse ''CERT-2024-PPN9UD''),
      Some (Serialized [newCertificate example_env ''CERT-2024-PPN9UD'' example_request]))"
  by (simp add: issue_def makeRequest_def fallback_issue load_eq example_cid)

lemma example_local_issue:
  "local_issue example_env None example_request =
     (Inr ''CERT-2024-PPN9UD'',
      Some (Serialized [newCertificate example_env ''CERT-2024-PPN9UD'' example_request]))"
  by (simp add: local_issue_def Let_def saveCertificatesToStorage_def JSON_stringify_def example_cid)

theorem issue_then_verify_witness:
  "issue example_getTime example_env None None example_request =
     (Inr (IssueResponse ''CERT-2024-PPN9UD''),
      Some (Serialized [newCertificate example_env ''CERT-2024-PPN9UD'' example_request]))
   \<and> (\<exists>c. verify example_getTime example_env None
             (Some (Serialized [newCertificate example_env ''CERT-2024-PPN9UD'' example_request]))
             ''CERT-2024-PPN9UD''
           = (Inr (CertificateResponse c),
              Some (Serialized [newCertificate example_env ''CERT-2024-PPN9UD'' example_request]))
          \<and> certificateId c = ''CERT-2024-PPN9UD'')
   \<and> local_issue example_env None example_request =
     (Inr ''CERT-2024-PPN9UD'',
      Some (Serialized [newCertificate example_env ''CERT-2024-PPN9UD'' example_request]))
   \<and> (\<exists>c. local_verify
             (Some (Serialized [newCertificate example_env ''CERT-2024-PPN9UD'' example_request]))
             ''CERT-2024-PPN9UD''
           = (Inr c, Some (Serialized [newCertificate example_env ''CERT-2024-PPN9UD'' example_request]))
          \<and> certificateId c = ''CERT-2024-PPN9UD'')"
  using issue_then_verify [of example_getTime example_env None example_request
      "''CERT-2024-PPN9UD''"
      "Some (Serialized [newCertificate example_env ''CERT-2024-PPN9UD'' example_request])"
      example_env "''CERT-2024-PPN9UD''"
      "Some (Serialized [newCertificate example_env ''CERT-2024-PPN9UD'' example_request])"]
    example_issue example_local_issue
  by blast

section \<open>Loading the stored sequence\<close>

text \<open>
  Claim C5, as amended. Loading returns the parsed sequence when the stored text parses,
  and the empty sequence when the entry is absent or holds the empty string; when the
  stored text is not JSON the \<^verbatim>\<open>SyntaxError\<close> of \<^verbatim>\<open>JSON.parse\<close> is thrown to the caller,
  since neither implementation catches it. The class and the module load alike.
\<close>

theorem load_outcomes:
  "getCertificatesFromStorage st =
     (case st of
        None \<Rightarrow> Inr []
      | Some EmptyText \<Rightarrow> Inr []
      | Some Malformed \<Rightarrow> Inl SyntaxError
      | Some (Serialized cs) \<Rightarrow> Inr cs)
   \<and> JSON_parse (getItem_or_empty st) = getCertificatesFromStorage st"
  by (simp add: getCertificatesFromStorage_def getItem_or_empty_def JSON_parse_def truthy_def
      split: option.splits stored_text.splits)

text \<open>The claim as stated fails on stored text that is not JSON: the load throws.\<close>

theorem load_malformed_counterexample:
  "getCertificatesFromStorage (Some Malformed) = Inl SyntaxError
   \<and> getCertificatesFromStorage (Some Malformed) \<noteq> Inr []
   \<and> JSON_parse (getItem_or_empty (Some Malformed)) = Inl SyntaxError"
  by (simp add: getCertificatesFromStorage_def getItem_or_empty_def JSON_parse_def truthy_def)

section \<open>Verification and the not-found error\<close>

text \<open>
  The module looks the identifier up as given: not found exactly when no stored record
  has it, the first match otherwise. The class does the same for an identifier without
  \<^verbatim>\<open>/\<close>.
\<close>

lemma local_verify_not_found_iff:
  assumes "getCertificatesFromStorage st = Inr cs"
  shows "(fst (local_verify st cid) = Inl CertificateNotFound) = (cid \<notin> certificateId ` set cs)"
    and "find (\<lambda>c. certificateId c = cid) cs = Some c \<Longrightarrow> local_verify st cid = (Inr c, st)"
  using assms by (auto simp: local_verify_def find_None_iff split: option.splits dest: find_Some_holds)

lemma verify_not_found_iff:
  assumes "getCertificatesFromStorage st = Inr cs" and "CHR ''/'' \<notin> set cid"
  shows "(fst (verify getTime env None st cid) = Inl CertificateNotFound) = (cid \<notin> certificateId ` set cs)"
    and "find (\<lambda>c. certificateId c = cid) cs = Some c
         \<Longrightarrow> verify getTime env None st cid = (Inr (CertificateResponse c), st)"
  using assms unfolding verify_def makeRequest_def
  by (auto simp: fallback_verify load_eq verify_endpoint_id find_None_iff simp del: append.simps
      split: option.splits dest: find_Some_holds)

lemma pop_split_slash_example:
  "pop (split (CHR ''/'') (''/certificates/verify/'' @ ''x/CERT-2024-SAMPLE1'')) = Some ''CERT-2024-SAMPLE1''"
  using pop_split [of "CHR ''/''" "''CERT-2024-SAMPLE1''" "''/certificates/verify/x''"] by simp

lemma find_sample1:
  "find (\<lambda>cert. certificateId cert = ''CERT-2024-SAMPLE1'') (sampleCertificates rnd)
     = Some (sampleCertificates rnd ! 0)"
  by (simp add: sampleCertificates_def)

lemma verify_slash_sample:
  "fst (verify getTime env None (Some (Serialized (sampleCertificates rnd))) ''x/CERT-2024-SAMPLE1'')
     = Inr (CertificateResponse (sampleCertificates rnd ! 0))"
  unfolding verify_def makeRequest_def
  by (simp add: fallback_verify load_eq pop_split_slash_example find_sample1 del: append.simps)

text \<open>
  Claim C3 (the code departs from it). The class recovers the identifier from the
  endpoint with \<^verbatim>\<open>split('/').pop()\<close>, which keeps only the text after the last \<^verbatim>\<open>/\<close>. On
  the store of the two samples, \<^verbatim>\<open>verify("x/CERT-2024-SAMPLE1")\<close> returns the first
  sample, although no stored record has the identifier \<^verbatim>\<open>x/CERT-2024-SAMPLE1\<close>.
\<close>

theorem verify_after_last_slash:
  "fst (verify getTime env None (Some (Serialized (sampleCertificates rnd))) ''x/CERT-2024-SAMPLE1'')
     = Inr (CertificateResponse (sampleCertificates rnd ! 0))
   \<and> ''x/CERT-2024-SAMPLE1'' \<notin> set (map certificateId (sampleCertificates rnd))"
  by (simp add: verify_slash_sample sample_ids)

section \<open>The shape of a generated identifier\<close>

text \<open>
  Claim C4 (the code departs from it). \<^verbatim>\<open>substring(2, 8)\<close> yields six characters only
  when the base-36 text of the random number has six digits after the point. For the
  random value \<open>0.5\<close> that text is \<^verbatim>\<open>0.i\<close> and the identifier has one random character;
  for \<open>0\<close> it is \<^verbatim>\<open>0\<close> and the identifier has none.
\<close>

theorem generateCertificateId_short:
  "generateCertificateId 2024 [True] = ''CERT-2024-I''
   \<and> generateCertificateId 2024 [] = ''CERT-2024-''"
  by (simp add: generateCertificateId_def toString36_half toString_int_2024 substring_def
      toUpperCase_def upper_char_def lower_letters_def upper_letters_def)

text \<open>
  What holds for every random value and year: the identifier is \<^verbatim>\<open>CERT-\<close>, the year in
  decimal, \<^verbatim>\<open>-\<close> and at most six characters from \<^verbatim>\<open>0-9A-Z\<close>, six exactly when the
  base-36 text has at least six digits after \<^verbatim>\<open>0.\<close>; the year has four digits from
  1000 to 9999.
\<close>

lemma numerator_bound:
  "foldl (\<lambda>a b. 2 * a + (if b then 1 else 0)) (a::nat) bs < (a + 1) * 2 ^ length bs"
proof (induction bs arbitrary: a)
  case Nil
  show ?case by simp
next
  case (Cons b bs)
  have "foldl (\<lambda>a b. 2 * a + (if b then 1 else 0)) (2 * a + (if b then 1 else 0)) bs
          < (2 * a + (if b then 1 else 0) + 1) * 2 ^ length bs"
    by (rule Cons.IH)
  also have "\<dots> \<le> (2 * a + 2) * 2 ^ length bs"
    by (intro mult_right_mono) simp_all
  also have "\<dots> = (a + 1) * 2 ^ length (b # bs)" by simp
  finally show ?case by simp
qed

lemma numerator_less: "numerator r < denominator r"
  using numerator_bound [of 0 r] by (simp add: numerator_def denominator_def)

lemma frac_digits_less:
  "0 < radix \<Longrightarrow> m < d \<Longrightarrow> \<forall>x\<in>set (frac_digits radix k m d). x < radix"
proof (induction k arbitrary: m)
  case 0
  show ?case by simp
next
  case (Suc k)
  from Suc.prems have "m * radix div d < radix"
    by (intro less_mult_imp_div_less) simp
  moreover from Suc.prems have "m * radix mod d < d" by simp
  ultimately show ?case using Suc.IH Suc.prems(1) by simp
qed

lemma upper_digit_char:
  assumes "d < 36"
  shows "upper_char (digit_char d) \<in> set ''0123456789'' \<union> set upper_letters"
proof (cases "map_of (zip lower_letters upper_letters) (digit_char d)")
  case None
  have "length lower_letters = length upper_letters"
    by (simp add: lower_letters_def upper_letters_def)
  with None have "digit_char d \<notin> set lower_letters"
    using map_of_zip_is_None [of lower_letters upper_letters "digit_char d"] by blast
  moreover have "base36_digits = ''0123456789'' @ lower_letters"
    by (simp add: base36_digits_def lower_letters_def)
  then have "digit_char d \<in> set ''0123456789'' \<union> set lower_letters"
    using digit_char_in [OF assms] by (metis set_append)
  ultimately have "digit_char d \<in> set ''0123456789''" by blast
  moreover from None have "upper_char (digit_char d) = digit_char d"
    by (simp add: upper_char_def)
  ultimately show ?thesis by (metis UnI1)
next
  case (Some u)
  then have "(digit_char d, u) \<in> set (zip lower_letters upper_letters)" by (rule map_of_SomeD)
  then have "u \<in> set upper_letters" by (rule set_zip_rightD)
  moreover from Some have "upper_char (digit_char d) = u"
    by (simp add: upper_char_def)
  ultimately show ?thesis by (metis UnI2)
qed

lemma substring_toString36:
  "\<exists>ds. substring 2 8 (toString36 r) = map digit_char ds \<and> (\<forall>x\<in>set ds. x < 36)"
proof (cases "numerator r = 0")
  case True
  then have "substring 2 8 (toString36 r) = map digit_char []"
    by (simp add: toString36_def substring_def)
  then show ?thesis by (intro exI [of _ "[]"]) simp
next
  case False
  let ?ds = "frac_digits 36 (length r) (numerator r) (denominator r)"
  from False have "substring 2 8 (toString36 r) = map digit_char (take 6 ?ds)"
    by (simp add: toString36_def substring_def take_map)
  moreover have "\<forall>x\<in>set (take 6 ?ds). x < 36"
    using frac_digits_less [OF _ numerator_less, of 36 "length r" r] by (auto dest: in_set_takeD)
  ultimately show ?thesis by blast
qed

lemma generateCertificateId_shape:
  "\<exists>suffix. generateCertificateId year r = ''CERT-'' @ toString_int year @ ''-'' @ suffix
      \<and> length suffix = min 6 (length (toString36 r) - 2)
      \<and> set suffix \<subseteq> set ''0123456789'' \<union> set upper_letters"
proof -
  obtain ds where ds: "substring 2 8 (toString36 r) = map digit_char ds" "\<forall>x\<in>set ds. x < 36"
    using substring_toString36 by blast
  let ?suffix = "toUpperCase (substring 2 8 (toString36 r))"
  have "generateCertificateId year r = ''CERT-'' @ toString_int year @ ''-'' @ ?suffix"
    by (simp add: generateCertificateId_def)
  moreover have "length ?suffix = min 6 (length (toString36 r) - 2)"
    by (simp add: toUpperCase_def substring_def)
  moreover have "set ?suffix \<subseteq> set ''0123456789'' \<union> set upper_letters"
  proof
    fix c assume "c \<in> set ?suffix"
    then obtain x where "x \<in> set ds" "c = upper_char (digit_char x)"
      unfolding ds(1) toUpperCase_def by auto
    with ds(2) upper_digit_char [of x]
    show "c \<in> set ''0123456789'' \<union> set upper_letters" by metis
  qed
  ultimately show ?thesis by blast
qed

lemma toString_nat_decimal: "set (toString_nat 10 n) \<subseteq> set ''0123456789''"
proof (induction "10 :: nat" n rule: toString_nat.induct)
  case (1 n)
  have digit: "digit_char k \<in> set ''0123456789''" if "k < 10" for k
  proof -
    from that have "digit_char k = take 10 base36_digits ! k" by (simp add: digit_char_def)
    moreover from that have "take 10 base36_digits ! k \<in> set (take 10 base36_digits)"
      by (intro nth_mem) (simp add: base36_digits_def)
    moreover have "take 10 base36_digits = ''0123456789''" by (simp add: base36_digits_def)
    ultimately show ?thesis by (simp del: set_simps)
  qed
  show ?case
  proof (cases "n < 10")
    case True
    then show ?thesis using digit [of n] by (subst toString_nat.simps) simp
  next
    case False
    then show ?thesis using 1 digit [of "n mod 10"]
      by (subst toString_nat.simps) simp
  qed
qed

lemma length_toString_nat_1: "n < 10 \<Longrightarrow> length (toString_nat 10 n) = 1"
  by (subst toString_nat.simps) simp

lemma length_toString_nat_2: "10 \<le> n \<Longrightarrow> n < 100 \<Longrightarrow> length (toString_nat 10 n) = 2"
  by (subst toString_nat.simps) (simp add: length_toString_nat_1)

lemma length_toString_nat_3: "100 \<le> n \<Longrightarrow> n < 1000 \<Longrightarrow> length (toString_nat 10 n) = 3"
  by (subst toString_nat.simps) (simp add: length_toString_nat_2)

lemma length_toString_nat_4: "1000 \<le> n \<Longrightarrow> n < 10000 \<Longrightarrow> length (toString_nat 10 n) = 4"
  by (subst toString_nat.simps) (simp add: length_toString_nat_3)

lemma year_four_digits:
  "1000 \<le> year \<Longrightarrow> year \<le> 9999 \<Longrightarrow>
   length (toString_int year) = 4 \<and> set (toString_int year) \<subseteq> set ''0123456789''"
  using toString_nat_decimal [of "nat year"] length_toString_nat_4 [of "nat year"]
  by (simp add: toString_int_def del: set_simps)

text \<open>
  The bound on the digit loop is never what ends it: more steps than the number of bits
  give the same digits.
\<close>

lemma frac_digits_zero: "frac_digits radix k 0 d = []"
  by (cases k) simp_all

lemma frac_digits_fuel_gen:
  "m < 2 ^ n \<Longrightarrow> 2 ^ n dvd m * 4 ^ f \<Longrightarrow>
   frac_digits 36 (f + j) m (2 ^ n) = frac_digits 36 f m (2 ^ n)"
proof (induction f arbitrary: m)
  case 0
  then have "m = 0" by (auto dest: dvd_imp_le)
  then show ?case by (simp add: frac_digits_zero)
next
  case (Suc f)
  show ?case
  proof (cases "m = 0")
    case True
    then show ?thesis by (simp add: frac_digits_zero)
  next
    case False
    let ?m' = "m * 36 mod 2 ^ n"
    have less: "?m' < 2 ^ n" by simp
    have "(?m' * 4 ^ f) mod 2 ^ n = (m * 36 * 4 ^ f) mod 2 ^ n"
      by (simp add: mod_mult_left_eq)
    also have "m * 36 * 4 ^ f = 9 * (m * 4 ^ Suc f)" by simp
    also from Suc.prems(2) have "(9 * (m * 4 ^ Suc f)) mod 2 ^ n = 0"
      by (meson dvd_eq_mod_eq_0 dvd_mult)
    finally have "2 ^ n dvd ?m' * 4 ^ f" by (simp add: dvd_eq_mod_eq_0)
    with less have "frac_digits 36 (f + j) ?m' (2 ^ n) = frac_digits 36 f ?m' (2 ^ n)"
      by (rule Suc.IH)
    with False show ?thesis by simp
  qed
qed

lemma toString36_fuel:
  "frac_digits 36 (length r + j) (numerator r) (denominator r)
     = frac_digits 36 (length r) (numerator r) (denominator r)"
proof -
  have "(4::nat) ^ length r = 2 ^ length r * 2 ^ length r"
    by (simp add: power_mult_distrib [symmetric])
  then have "(2::nat) ^ length r dvd numerator r * 4 ^ length r" by simp
  moreover have "numerator r < 2 ^ length r"
    using numerator_less [of r] by (simp add: denominator_def)
  ultimately show ?thesis
    unfolding denominator_def by (intro frac_digits_fuel_gen)
qed

section \<open>Seeding the samples\<close>

lemma initializeSampleData_absent:
  "st = None \<or> st = Some EmptyText \<Longrightarrow>
     initializeSampleData rnd st = Some (Serialized (sampleCertificates rnd))"
  by (auto simp: initializeSampleData_def truthy_def JSON_stringify_def)

lemma initializeSampleData_present:
  "initializeSampleData rnd (Some (Serialized cs)) = Some (Serialized cs)"
  by (simp add: initializeSampleData_def truthy_def)

lemma fold_initializeSampleData_present:
  "fold initializeSampleData rnds (Some (Serialized cs)) = Some (Serialized cs)"
  by (induction rnds) (simp_all add: initializeSampleData_present)

lemma local_initializeSampleData_empty:
  "st = None \<or> st = Some EmptyText \<or> st = Some (Serialized []) \<Longrightarrow>
     local_initializeSampleData rnd st = (Inr (), Some (Serialized (sampleCertificates rnd)))"
  by (auto simp: local_initializeSampleData_def getCertificatesFromStorage_def truthy_def
      JSON_parse_def saveCertificatesToStorage_def JSON_stringify_def)

lemma local_initializeSampleData_present:
  "cs \<noteq> [] \<Longrightarrow> local_initializeSampleData rnd (Some (Serialized cs)) = (Inr (), Some (Serialized cs))"
  by (simp add: local_initializeSampleData_def)

lemma fold_local_initializeSampleData_present:
  "cs \<noteq> [] \<Longrightarrow>
   fold (\<lambda>rnd st. snd (local_initializeSampleData rnd st)) rnds (Some (Serialized cs)) = Some (Serialized cs)"
  by (induction rnds) (simp_all add: local_initializeSampleData_present)

text \<open>
  Claim C7, as amended. Started on a store with no data (the entry absent, or the empty
  string), any number of runs of the initializer, one or more, leaves the two sample
  records \<^verbatim>\<open>CERT-2024-SAMPLE1\<close> and \<^verbatim>\<open>CERT-2024-SAMPLE2\<close> as built by the first run, once
  each; this holds for both initializers. On a store that holds a serialized list the
  class's initializer changes nothing, whether the list has records or is empty, since
  it tests the raw text; the module's initializer seeds the samples on the empty list
  and changes nothing on a list with records.
\<close>

theorem seed_idempotent:
  "(st = None \<or> st = Some EmptyText \<longrightarrow>
      fold initializeSampleData (rnd # rnds) st = Some (Serialized (sampleCertificates rnd))
      \<and> fold (\<lambda>rnd st. snd (local_initializeSampleData rnd st)) (rnd # rnds) st
           = Some (Serialized (sampleCertificates rnd)))
   \<and> fold (\<lambda>rnd st. snd (local_initializeSampleData rnd st)) (rnd # rnds) (Some (Serialized []))
        = Some (Serialized (sampleCertificates rnd))
   \<and> map certificateId (sampleCertificates rnd) = [''CERT-2024-SAMPLE1'', ''CERT-2024-SAMPLE2'']
   \<and> fold initializeSampleData runs (Some (Serialized cs)) = Some (Serialized cs)
   \<and> (cs \<noteq> [] \<longrightarrow>
        fold (\<lambda>rnd st. snd (local_initializeSampleData rnd st)) runs (Some (Serialized cs))
          = Some (Serialized cs)
        \<and> local_initializeSampleData rnd (Some (Serialized cs)) = (Inr (), Some (Serialized cs)))"
  by (auto simp: initializeSampleData_absent fold_initializeSampleData_present
      local_initializeSampleData_empty fold_local_initializeSampleData_present
      sampleCertificates_not_Nil sample_ids initializeSampleData_present
      local_initializeSampleData_present)

theorem seed_idempotent_witness:
  "fold initializeSampleData [half_random, example_random, half_random] None
     = Some (Serialized (sampleCertificates half_random))
   \<and> fold (\<lambda>rnd st. snd (local_initializeSampleData rnd st)) [half_random, example_random, half_random] None
     = Some (Serialized (sampleCertificates half_random))
   \<and> sampleCertificates half_random \<noteq> []
   \<and> fold initializeSampleData [example_random, half_random] (Some (Serialized (sampleCertificates half_random)))
     = Some (Serialized (sampleCertificates half_random))
   \<and> fold (\<lambda>rnd st. snd (local_initializeSampleData rnd st)) [example_random, half_random]
        (Some (Serialized (sampleCertificates half_random)))
     = Some (Serialized (sampleCertificates half_random))"
  using seed_idempotent [where st = None and rnd = half_random and rnds = "[example_random, half_random]"
      and runs = "[example_random, half_random]" and cs = "sampleCertificates half_random"]
  by (simp add: sampleCertificates_not_Nil)

text \<open>
  The claim as stated fails for the class on the store that holds the serialized empty
  list: it is an empty store, the initializer never seeds it, and after two runs it
  holds no record.
\<close>

theorem seed_empty_list_counterexample:
  "stored_records (Some (Serialized [])) = []
   \<and> fold initializeSampleData [half_random, example_random] (Some (Serialized []))
       = Some (Serialized [])
   \<and> stored_records (fold initializeSampleData [half_random, example_random] (Some (Serialized [])))
       \<noteq> sampleCertificates half_random"
  using sampleCertificates_not_Nil [of half_random]
  by (simp add: initializeSampleData_present)

section \<open>The data hash\<close>

lemma dataHash_loop_eq:
  "dataHash_loop ds k i h = h @ concat (map (hashChar ds) [i..<i + k])"
proof (induction k arbitrary: i h)
  case 0
  then show ?case by simp
next
  case (Suc k)
  have "[i..<i + Suc k] = i # [Suc i..<Suc i + k]"
    by (simp add: upt_conv_Cons)
  with Suc show ?case by simp
qed

lemma toString_nat_digit: "n < 16 \<Longrightarrow> toString_nat 16 n = [digit_char n]"
  by (subst toString_nat.simps) simp

lemma hashChar_digit:
  "ds \<noteq> [] \<Longrightarrow> hashChar ds i = [digit_char ((unat (ds ! (i mod length ds)) + i) mod 16)]"
  by (simp add: hashChar_def toString_nat_digit)

lemma concat_singletons: "concat (map (\<lambda>i. [f i]) xs) = map f xs"
  by (induction xs) simp_all

lemma hex_digit_char: "d < 16 \<Longrightarrow> digit_char d \<in> set (take 16 base36_digits)"
proof -
  assume d: "d < 16"
  then have "digit_char d = take 16 base36_digits ! d"
    by (simp add: digit_char_def)
  moreover from d have "take 16 base36_digits ! d \<in> set (take 16 base36_digits)"
    by (intro nth_mem) (simp add: base36_digits_def)
  ultimately show ?thesis by simp
qed

text \<open>
  Claim C8. \<^verbatim>\<open>generateDataHash\<close> depends on the payload only through its serialized text.
  For a serialized text (never empty) the result is \<^verbatim>\<open>0x\<close> and 64 hex digits, the digit
  at position \<open>i\<close> being \<open>(charCode(text[i mod length]) + i) mod 16\<close>.
\<close>

theorem generateDataHash_digits:
  assumes "dataString \<noteq> []"
  shows "\<exists>digits. generateDataHash (Some dataString) = Inr (''0x'' @ digits)
           \<and> length digits = 64
           \<and> set digits \<subseteq> set ''0123456789abcdef''
           \<and> (\<forall>i<64. digits ! i =
                  digit_char ((unat (dataString ! (i mod length dataString)) + i) mod 16))"
proof -
  let ?digit = "\<lambda>i. digit_char ((unat (dataString ! (i mod length dataString)) + i) mod 16)"
  have "hashChar dataString = (\<lambda>i. [?digit i])"
    using assms by (intro ext) (simp add: hashChar_digit)
  then have hash: "generateDataHash (Some dataString) = Inr (''0x'' @ map ?digit [0..<64])"
    by (simp only: generateDataHash_def option.case dataHash_loop_eq concat_singletons add_0)
  have "take 16 base36_digits = ''0123456789abcdef''" by (simp add: base36_digits_def)
  then have hex: "?digit i \<in> set ''0123456789abcdef''" for i
    using hex_digit_char [of "(unat (dataString ! (i mod length dataString)) + i) mod 16"]
    by (metis mod_less_divisor zero_less_numeral)
  have "set (map ?digit [0..<64]) \<subseteq> set ''0123456789abcdef''"
    using hex by (auto simp del: set_simps)
  moreover have "\<forall>i<64. map ?digit [0..<64] ! i = ?digit i"
    by (simp del: upt_Suc)
  moreover have "length (map ?digit [0..<64]) = 64" by simp
  ultimately show ?thesis using hash by blast
qed

theorem generateDataHash_digits_witness:
  "[0x7B, 0x7D] \<noteq> ([] :: 16 word list)
   \<and> (\<exists>digits. generateDataHash (Some [0x7B, 0x7D]) = Inr (''0x'' @ digits)
           \<and> length digits = 64
           \<and> set digits \<subseteq> set ''0123456789abcdef''
           \<and> digits ! 0 = digit_char ((unat ([0x7B, 0x7D :: 16 word] ! (0 mod 2)) + 0) mod 16)
           \<and> digits ! 63 = digit_char ((unat ([0x7B, 0x7D :: 16 word] ! (63 mod 2)) + 63) mod 16))"
proof -
  from generateDataHash_digits [of "[0x7B, 0x7D]"]
  obtain digits where d: "generateDataHash (Some [0x7B, 0x7D]) = Inr (''0x'' @ digits)"
    "length digits = 64" "set digits \<subseteq> set ''0123456789abcdef''"
    "\<forall>i<64. digits ! i =
       digit_char ((unat ([0x7B, 0x7D :: 16 word] ! (i mod length [0x7B, 0x7D :: 16 word])) + i) mod 16)"
    by blast
  from d(4) have "digits ! 0 = digit_char ((unat ([0x7B, 0x7D :: 16 word] ! (0 mod 2)) + 0) mod 16)"
    by (metis length_Cons list.size(3) numeral_2_eq_2 zero_less_numeral)
  moreover from d(4) have "digits ! 63 = digit_char ((unat ([0x7B, 0x7D :: 16 word] ! (63 mod 2)) + 63) mod 16)"
    by (metis length_Cons list.size(3) numeral_2_eq_2 numeral_less_iff semiring_norm(76) semiring_norm(81) semiring_norm(79))
  ultimately show ?thesis using d(1,2,3) by blast
qed

section \<open>Stored records are only appended to\<close>

lemma fallback_getAll:
  "fallbackToLocalStorage getTime env st ''/certificates'' \<lparr>http_method = None, body = None\<rparr> =
     (case getCertificatesFromStorage st of
        Inl e \<Rightarrow> (Inl e, st)
      | Inr certificates \<Rightarrow>
          (Inr (ListResponse (array_sort (compare_issuedAt getTime) certificates)), st))"
  unfolding fallbackToLocalStorage_def
  by (simp split: sum.splits add: load_eq startsWith_def)

lemma fallback_health:
  "fallbackToLocalStorage getTime env st ''/health'' \<lparr>http_method = None, body = None\<rparr> =
     (case getCertificatesFromStorage st of
        Inl e \<Rightarrow> (Inl e, st)
      | Inr certificates \<Rightarrow> (Inl UnknownEndpoint, st))"
  unfolding fallbackToLocalStorage_def
  by (simp split: sum.splits add: load_eq startsWith_def)

lemma issue_store:
  "snd (issue getTime env remote st data) = st \<or>
   (\<exists>c. isValid c \<and> snd (issue getTime env remote st data) = Some (Serialized (stored_records st @ [c])))"
  by (cases remote)
     (auto simp: issue_def makeRequest_def fallback_issue load_eq stored_records_def
           split: sum.splits)

lemma verify_store: "snd (verify getTime env remote st cid) = st"
  by (cases remote)
     (auto simp: verify_def makeRequest_def fallback_verify simp del: append.simps
           split: sum.splits option.splits)

lemma getAll_store: "snd (getAll getTime env remote st) = st"
  by (cases remote)
     (auto simp: getAll_def makeRequest_def fallback_getAll split: sum.splits)

lemma healthCheck_store: "snd (healthCheck getTime env remote st) = st"
  by (cases remote)
     (auto simp: healthCheck_def makeRequest_def fallback_health split: sum.splits)

lemma list_all_isValid_samples: "list_all isValid (sampleCertificates rnd)"
  by (simp add: sampleCertificates_def)

lemma initializeSampleData_store:
  "initializeSampleData rnd st = st \<or>
   (stored_records st = [] \<and> initializeSampleData rnd st = Some (Serialized (sampleCertificates rnd)))"
  by (auto simp: initializeSampleData_def JSON_stringify_def stored_records_def
        getCertificatesFromStorage_def truthy_def split: option.splits)

lemma local_issue_store:
  "snd (local_issue env st data) = st \<or>
   (\<exists>c. isValid c \<and> snd (local_issue env st data) = Some (Serialized (stored_records st @ [c])))"
  by (auto simp: local_issue_def stored_records_def saveCertificatesToStorage_def JSON_stringify_def
        Let_def split: sum.splits)

lemma local_verify_store: "snd (local_verify st cid) = st"
  by (auto simp: local_verify_def split: sum.splits option.splits)

lemma local_getAll_store: "snd (local_getAll getTime st) = st"
  by (auto simp: local_getAll_def split: sum.splits)

lemma local_initializeSampleData_store:
  "snd (local_initializeSampleData rnd st) = st \<or>
   (stored_records st = [] \<and>
    snd (local_initializeSampleData rnd st) = Some (Serialized (sampleCertificates rnd)))"
  by (auto simp: local_initializeSampleData_def saveCertificatesToStorage_def JSON_stringify_def
        stored_records_def split: sum.splits)

lemma perform_appends:
  "perform getTime op st = st \<or>
   (\<exists>new. list_all isValid new \<and> perform getTime op st = Some (Serialized (stored_records st @ new)))"
proof (cases op)
  case (Issue env remote data)
  from issue_store [of getTime env remote st data] show ?thesis
    unfolding Issue perform.simps
    by (elim disjE exE) (auto intro: exI [of _ "[c]" for c])
next
  case (InitializeSampleData rnd)
  from initializeSampleData_store [of rnd st] show ?thesis
    unfolding InitializeSampleData perform.simps
    by (auto intro!: exI [of _ "sampleCertificates rnd"] simp: list_all_isValid_samples)
next
  case (LocalIssue env data)
  from local_issue_store [of env st data] show ?thesis
    unfolding LocalIssue perform.simps
    by (elim disjE exE) (auto intro: exI [of _ "[c]" for c])
next
  case (LocalInitializeSampleData rnd)
  from local_initializeSampleData_store [of rnd st] show ?thesis
    unfolding LocalInitializeSampleData perform.simps
    by (auto intro!: exI [of _ "sampleCertificates rnd"] simp: list_all_isValid_samples)
qed (simp_all add: verify_store getAll_store healthCheck_store local_verify_store local_getAll_store)

lemma perform_prefix: "prefix (stored_records st) (stored_records (perform getTime op st))"
  using perform_appends [of getTime op st] by auto

lemma perform_valid:
  "list_all isValid (stored_records st) \<Longrightarrow> list_all isValid (stored_records (perform getTime op st))"
  using perform_appends [of getTime op st] by auto

text \<open>
  Claim C9. Whatever operations run, on either path and in either implementation, the
  records stored before are a prefix of the records stored after: each is still there,
  in place and unchanged, and anything new comes after them. If every stored record had
  \<^verbatim>\<open>isValid\<close> true before, every stored record has it true after.
\<close>

theorem records_preserved:
  "prefix (stored_records st) (stored_records (fold (perform getTime) ops st))
   \<and> (list_all isValid (stored_records st) \<longrightarrow>
        list_all isValid (stored_records (fold (perform getTime) ops st)))"
proof (induction ops arbitrary: st)
  case Nil
  show ?case by simp
next
  case (Cons op ops)
  have step: "prefix (stored_records st) (stored_records (perform getTime op st))"
    by (rule perform_prefix)
  from Cons [of "perform getTime op st"]
  have rest: "prefix (stored_records (perform getTime op st))
                (stored_records (fold (perform getTime) (op # ops) st))"
    and valid: "list_all isValid (stored_records (perform getTime op st)) \<longrightarrow>
                list_all isValid (stored_records (fold (perform getTime) (op # ops) st))"
    by simp_all
  from step rest have "prefix (stored_records st) (stored_records (fold (perform getTime) (op # ops) st))"
    by (rule prefix_order.trans)
  moreover from valid perform_valid [of st getTime op]
  have "list_all isValid (stored_records st) \<longrightarrow>
        list_all isValid (stored_records (fold (perform getTime) (op # ops) st))"
    by blast
  ultimately show ?case by blast
qed

theorem records_preserved_witness:
  "list_all isValid (stored_records None)
   \<and> prefix (stored_records None)
        (stored_records (fold (perform example_getTime)
           [InitializeSampleData half_random, Issue example_env None example_request,
            Verify example_env None ''CERT-2024-PPN9UD'', GetAll example_env None,
            HealthCheck example_env None] None))
   \<and> list_all isValid
        (stored_records (fold (perform example_getTime)
           [InitializeSampleData half_random, Issue example_env None example_request,
            Verify example_env None ''CERT-2024-PPN9UD'', GetAll example_env None,
            HealthCheck example_env None] None))"
  using records_preserved [of None example_getTime
           "[InitializeSampleData half_random, Issue example_env None example_request,
            Verify example_env None ''CERT-2024-PPN9UD'', GetAll example_env None,
            HealthCheck example_env None]"]
  by (simp add: stored_records_def)

section \<open>Required fields\<close>

text \<open>
  Claim C2, as amended. \<^verbatim>\<open>issue\<close> checks nothing: on the local-fallback path, whenever
  the stored text loads, it appends one record built from the input and returns its
  identifier, whether or not a required field is empty. The check is made by the submit
  handler of the issuance form: with an empty \<^verbatim>\<open>recipientName\<close>, \<^verbatim>\<open>courseName\<close> or
  \<^verbatim>\<open>issuerName\<close> it reports the missing information and returns without calling
  \<^verbatim>\<open>issue\<close>, so the storage entry stays as it was.
\<close>

theorem issue_without_validation:
  "(getCertificatesFromStorage st = Inr cs \<longrightarrow>
      issue getTime env None st data =
        (Inr (IssueResponse (generateCertificateId (now_year env) (random env 0))),
         Some (Serialized (cs @
           [newCertificate env (generateCertificateId (now_year env) (random env 0)) data]))))
   \<and> (recipientName data = [] \<or> courseName data = [] \<or> issuerName data = [] \<longrightarrow>
        handleSubmit mutate st data = (MissingInformation, st))"
  by (auto simp: issue_def makeRequest_def fallback_issue load_eq handleSubmit_def)

theorem issue_without_validation_witness:
  "getCertificatesFromStorage None = Inr []
   \<and> issue example_getTime example_env None None (example_request\<lparr>courseName := ''''\<rparr>) =
        (Inr (IssueResponse (generateCertificateId (now_year example_env) (random example_env 0))),
         Some (Serialized ([] @
           [newCertificate example_env (generateCertificateId (now_year example_env) (random example_env 0))
              (example_request\<lparr>courseName := ''''\<rparr>)])))
   \<and> courseName (example_request\<lparr>courseName := ''''\<rparr>) = []
   \<and> handleSubmit (\<lambda>formData st. issue example_getTime example_env None st formData) None
          (example_request\<lparr>courseName := ''''\<rparr>)
        = (MissingInformation, None)"
  using issue_without_validation [of None "[]" example_getTime example_env
          "example_request\<lparr>courseName := ''''\<rparr>"
          "\<lambda>formData st. issue example_getTime example_env None st formData"]
  by simp

text \<open>
  The claim as stated fails: \<^verbatim>\<open>issue\<close> with an empty \<^verbatim>\<open>recipientName\<close> on a store without
  data returns an identifier and stores the record.
\<close>

theorem issue_empty_name_counterexample:
  "issue example_getTime example_env None None (example_request\<lparr>recipientName := ''''\<rparr>) =
     (Inr (IssueResponse ''CERT-2024-PPN9UD''),
      Some (Serialized
        [newCertificate example_env ''CERT-2024-PPN9UD'' (example_request\<lparr>recipientName := ''''\<rparr>)]))
   \<and> recipientName (example_request\<lparr>recipientName := ''''\<rparr>) = ''''
   \<and> stored_records
        (snd (issue example_getTime example_env None None (example_request\<lparr>recipientName := ''''\<rparr>)))
       \<noteq> stored_records None"
  by (simp add: issue_def makeRequest_def fallback_issue load_eq example_cid stored_records_def)

section \<open>The listing, newest first\<close>

text \<open>
  The listing is always a rearrangement of the stored records. When every \<^verbatim>\<open>issuedAt\<close>
  is a date the comparator is a consistent order and the model of \<^verbatim>\<open>sort\<close> is the
  library's stable sort on the negated issue time.
\<close>

lemma mset_sort_insert: "mset (sort_insert comparefn x ys) = add_mset x (mset ys)"
  by (induction ys) simp_all

lemma mset_array_sort: "mset (array_sort comparefn xs) = mset xs"
  by (induction xs) (simp_all add: mset_sort_insert)

lemma set_array_sort: "set (array_sort comparefn xs) = set xs"
  using mset_array_sort [of comparefn xs] by (metis set_mset_mset)

lemma SortCompare_dated:
  assumes "getTime (issuedAt a) \<noteq> None" and "getTime (issuedAt b) \<noteq> None"
  shows "SortCompare (compare_issuedAt getTime) a b = issue_time getTime b - issue_time getTime a"
  using assms by (auto simp: SortCompare_def compare_issuedAt_def issue_time_def)

lemma sort_insert_insort_key:
  assumes "getTime (issuedAt x) \<noteq> None" and "\<forall>y\<in>set ys. getTime (issuedAt y) \<noteq> None"
  shows "sort_insert (compare_issuedAt getTime) x ys
           = insort_key (\<lambda>c. - issue_time getTime c) x ys"
  using assms by (induction ys) (simp_all add: SortCompare_dated)

lemma array_sort_sort_key:
  assumes "\<forall>c\<in>set cs. getTime (issuedAt c) \<noteq> None"
  shows "array_sort (compare_issuedAt getTime) cs = sort_key (\<lambda>c. - issue_time getTime c) cs"
  using assms
proof (induction cs)
  case Nil
  show ?case by simp
next
  case (Cons x xs)
  then have ih: "array_sort (compare_issuedAt getTime) xs = sort_key (\<lambda>c. - issue_time getTime c) xs"
    by simp
  from Cons.prems have "\<forall>y\<in>set (array_sort (compare_issuedAt getTime) xs). getTime (issuedAt y) \<noteq> None"
    by (simp add: set_array_sort)
  with Cons.prems
  have "sort_insert (compare_issuedAt getTime) x (array_sort (compare_issuedAt getTime) xs)
          = insort_key (\<lambda>c. - issue_time getTime c) x (array_sort (compare_issuedAt getTime) xs)"
    by (intro sort_insert_insort_key) simp_all
  with ih show ?case by simp
qed

lemma newest_first_array_sort:
  assumes "\<forall>c\<in>set cs. getTime (issuedAt c) \<noteq> None"
  shows "newest_first getTime (array_sort (compare_issuedAt getTime) cs)"
proof -
  let ?f = "\<lambda>c. - issue_time getTime c"
  have "sorted (map ?f (sort_key ?f cs))" by (rule sorted_sort_key)
  then have "sorted_wrt (\<lambda>a b. ?f a \<le> ?f b) (sort_key ?f cs)"
    by (simp add: sorted_map)
  moreover have "\<And>a b. ?f a \<le> ?f b \<Longrightarrow> newer_or_equal getTime a b"
    by (auto simp: newer_or_equal_def issue_time_def split: option.splits)
  ultimately have "sorted_wrt (newer_or_equal getTime) (sort_key ?f cs)"
    by (rule sorted_wrt_mono_rel [rotated]) blast
  then show ?thesis
    by (simp add: newest_first_def array_sort_sort_key [OF assms])
qed

lemma stable_array_sort:
  assumes "\<forall>c\<in>set cs. getTime (issuedAt c) \<noteq> None"
  shows "filter (\<lambda>c. getTime (issuedAt c) = Some t) (array_sort (compare_issuedAt getTime) cs)
           = filter (\<lambda>c. getTime (issuedAt c) = Some t) cs"
proof -
  let ?f = "\<lambda>c. - issue_time getTime c"
  have same: "\<And>xs. \<forall>c\<in>set xs. getTime (issuedAt c) \<noteq> None \<Longrightarrow>
      filter (\<lambda>c. getTime (issuedAt c) = Some t) xs = filter (\<lambda>c. ?f c = - t) xs"
    by (intro filter_cong) (auto simp: issue_time_def split: option.splits)
  have "filter (\<lambda>c. ?f c = - t) (sort_key ?f cs) = filter (\<lambda>c. ?f c = - t) cs"
    by (rule sort_key_stable)
  moreover have "\<forall>c\<in>set (sort_key ?f cs). getTime (issuedAt c) \<noteq> None"
    using assms by simp
  ultimately show ?thesis
    using same [of cs] same [of "sort_key ?f cs"] assms
    by (simp add: array_sort_sort_key [OF assms])
qed

lemma strictly_descending_remdups_adj:
  "sorted_wrt (\<lambda>a b. b \<le> a) xs \<Longrightarrow> sorted_wrt (\<lambda>a b. b < a) (remdups_adj (xs :: int list))"
proof (induction xs rule: remdups_adj.induct)
  case (3 x y xs)
  show ?case
  proof (cases "x = y")
    case True
    with 3 show ?thesis by simp
  next
    case False
    from "3.prems" have "\<forall>z\<in>set (y # xs). z \<le> x" by simp
    moreover from "3.prems" have "\<forall>z\<in>set xs. z \<le> y" by simp
    ultimately have "\<forall>z\<in>set (y # xs). z < x" using False by force
    with 3 False show ?thesis by simp
  qed
qed simp_all

lemma strict_array_sort:
  assumes "\<forall>c\<in>set cs. getTime (issuedAt c) \<noteq> None"
  shows "sorted_wrt (\<lambda>a b. b < a)
           (remdups_adj (map (issue_time getTime) (array_sort (compare_issuedAt getTime) cs)))"
proof -
  have "sorted (map (\<lambda>c. - issue_time getTime c) (sort_key (\<lambda>c. - issue_time getTime c) cs))"
    by (rule sorted_sort_key)
  then have "sorted_wrt (\<lambda>a b. b \<le> a)
          (map (issue_time getTime) (sort_key (\<lambda>c. - issue_time getTime c) cs))"
    by (simp add: sorted_map sorted_wrt_map)
  then show ?thesis
    unfolding array_sort_sort_key [OF assms] by (rule strictly_descending_remdups_adj)
qed

text \<open>
  Claim C6. For a stored sequence of certificate records (every \<^verbatim>\<open>issuedAt\<close> a date),
  \<^verbatim>\<open>getAll\<close> on the local-fallback path, and the module's \<^verbatim>\<open>getAll\<close>, return a
  rearrangement of the whole sequence, newest first: no record comes before a newer one,
  and the issue times, each run of equal times counted once, descend strictly. Records
  of equal issue time keep their stored order. The storage entry is unchanged.
\<close>

theorem getAll_newest_first:
  assumes "getCertificatesFromStorage st = Inr cs"
    and "\<forall>c\<in>set cs. getTime (issuedAt c) \<noteq> None"
  shows "\<exists>out. getAll getTime env None st = (Inr (ListResponse out), st)
            \<and> local_getAll getTime st = (Inr out, st)
            \<and> mset out = mset cs
            \<and> newest_first getTime out
            \<and> sorted_wrt (\<lambda>a b. b < a) (remdups_adj (map (issue_time getTime) out))
            \<and> (\<forall>t. filter (\<lambda>c. getTime (issuedAt c) = Some t) out
                     = filter (\<lambda>c. getTime (issuedAt c) = Some t) cs)"
proof (intro exI conjI allI)
  show "getAll getTime env None st
          = (Inr (ListResponse (array_sort (compare_issuedAt getTime) cs)), st)"
    using assms(1) by (simp add: getAll_def makeRequest_def fallback_getAll)
  show "local_getAll getTime st = (Inr (array_sort (compare_issuedAt getTime) cs), st)"
    using assms(1) by (simp add: local_getAll_def)
  show "mset (array_sort (compare_issuedAt getTime) cs) = mset cs"
    by (rule mset_array_sort)
  show "newest_first getTime (array_sort (compare_issuedAt getTime) cs)"
    using assms(2) by (rule newest_first_array_sort)
  show "sorted_wrt (\<lambda>a b. b < a)
          (remdups_adj (map (issue_time getTime) (array_sort (compare_issuedAt getTime) cs)))"
    using assms(2) by (rule strict_array_sort)
  show "filter (\<lambda>c. getTime (issuedAt c) = Some t) (array_sort (compare_issuedAt getTime) cs)
          = filter (\<lambda>c. getTime (issuedAt c) = Some t) cs" for t
    using assms(2) by (rule stable_array_sort)
qed

lemma samples_dated: "\<forall>c\<in>set (sampleCertificates rnd). example_getTime (issuedAt c) \<noteq> None"
  by (simp add: sampleCertificates_def example_getTime_def)

theorem getAll_newest_first_witness:
  "getCertificatesFromStorage (Some (Serialized (sampleCertificates half_random)))
     = Inr (sampleCertificates half_random)
   \<and> list_all (\<lambda>c. example_getTime (issuedAt c) \<noteq> None) (sampleCertificates half_random)
   \<and> (\<exists>out. getAll example_getTime example_env None (Some (Serialized (sampleCertificates half_random)))
               = (Inr (ListResponse out), Some (Serialized (sampleCertificates half_random)))
            \<and> local_getAll example_getTime (Some (Serialized (sampleCertificates half_random)))
               = (Inr out, Some (Serialized (sampleCertificates half_random)))
            \<and> mset out = mset (sampleCertificates half_random)
            \<and> newest_first example_getTime out
            \<and> sorted_wrt (\<lambda>a b. b < a) (remdups_adj (map (issue_time example_getTime) out))
            \<and> (\<forall>t. filter (\<lambda>c. example_getTime (issuedAt c) = Some t) out
                     = filter (\<lambda>c. example_getTime (issuedAt c) = Some t) (sampleCertificates half_random)))"
  using getAll_newest_first [of "Some (Serialized (sampleCertificates half_random))"
          "sampleCertificates half_random" example_getTime example_env]
    samples_dated [of half_random]
  by (simp add: list_all_iff)

text \<open>
  Two listings: the samples, and the samples stored twice, where the records of equal
  issue time come out next to each other.
\<close>

lemma getAll_samples:
  "listing (fst (getAll example_getTime env None (Some (Serialized (sampleCertificates rnd)))))
     = [sampleCertificates rnd ! 1, sampleCertificates rnd ! 0]"
  by (simp add: listing_def getAll_def makeRequest_def fallback_getAll sampleCertificates_def
      SortCompare_def compare_issuedAt_def example_getTime_def)

lemma getAll_duplicated:
  "listing (fst (getAll example_getTime example_env None duplicated_samples))
     = [sampleCertificates half_random ! 1, sampleCertificates half_random ! 1,
        sampleCertificates half_random ! 0, sampleCertificates half_random ! 0]"
  by (simp add: listing_def getAll_def makeRequest_def fallback_getAll sampleCertificates_def
      SortCompare_def compare_issuedAt_def example_getTime_def duplicated_samples_def)

section \<open>The two implementations side by side\<close>

text \<open>
  On the local-fallback path the class computes what the module computes for issuing and
  listing, and for verifying an identifier without \<^verbatim>\<open>/\<close>. The initializers agree on
  every storage entry but the serialized empty list, where only the module seeds.
\<close>

lemma issue_equivalent:
  "issue getTime env None st data =
     (map_sum id IssueResponse (fst (local_issue env st data)), snd (local_issue env st data))"
  by (simp add: issue_def makeRequest_def fallback_issue load_eq local_issue_def Let_def
      saveCertificatesToStorage_def JSON_stringify_def split: sum.splits)

lemma getAll_equivalent:
  "getAll getTime env None st =
     (map_sum id ListResponse (fst (local_getAll getTime st)), snd (local_getAll getTime st))"
  by (simp add: getAll_def makeRequest_def fallback_getAll local_getAll_def split: sum.splits)

lemma verify_equivalent:
  "CHR ''/'' \<notin> set cid \<Longrightarrow>
   verify getTime env None st cid =
     (map_sum id CertificateResponse (fst (local_verify st cid)), snd (local_verify st cid))"
  by (simp add: verify_def makeRequest_def fallback_verify load_eq verify_endpoint_id
      local_verify_def del: append.simps split: sum.splits option.splits)

lemma initializers_agree:
  "st \<noteq> Some (Serialized []) \<Longrightarrow>
   initializeSampleData rnd st = snd (local_initializeSampleData rnd st)"
  by (auto simp: initializeSampleData_def local_initializeSampleData_def
      getCertificatesFromStorage_def truthy_def JSON_parse_def saveCertificatesToStorage_def
      split: option.splits stored_text.splits)

lemma initializers_differ:
  "initializeSampleData rnd (Some (Serialized [])) = Some (Serialized [])"
  "snd (local_initializeSampleData rnd (Some (Serialized []))) = Some (Serialized (sampleCertificates rnd))"
  by (simp_all add: initializeSampleData_present local_initializeSampleData_empty)

lemma local_verify_slash_sample:
  "fst (local_verify (Some (Serialized (sampleCertificates rnd))) ''x/CERT-2024-SAMPLE1'')
     = Inl CertificateNotFound"
  by (simp add: local_verify_def sampleCertificates_def)

text \<open>
  Claim C10 (the code departs from it). For an identifier with a \<^verbatim>\<open>/\<close> the class looks
  up the text after the last \<^verbatim>\<open>/\<close> and the module the identifier as given: on the
  store of the two samples, \<^verbatim>\<open>verify("x/CERT-2024-SAMPLE1")\<close> returns the first sample
  in the class and fails with not found in the module.
\<close>

theorem verify_differs_from_local_verify:
  "fst (verify getTime env None (Some (Serialized (sampleCertificates rnd))) ''x/CERT-2024-SAMPLE1'')
     = Inr (CertificateResponse (sampleCertificates rnd ! 0))
   \<and> fst (local_verify (Some (Serialized (sampleCertificates rnd))) ''x/CERT-2024-SAMPLE1'')
     = Inl CertificateNotFound"
  by (simp add: verify_slash_sample local_verify_slash_sample)

end
